theory Spec2Isabelle
  imports Complex_Main "HOL-Library.Multiset"
begin

section \<open>JavaScript numbers\<close>

text \<open>
  A JavaScript \<open>number\<close> is an IEEE-754 binary64 value. A finite one is represented by
  its real value, and every \<open>+\<close>, \<open>-\<close> and \<open>*\<close> of the source rounds the exact result
  to the nearest such value, ties to the even significand (\<open>fl64\<close>): significands of
  53 bits, the exponent of the last bit from \<open>-1074\<close> (gradual underflow) to \<open>971\<close>.
  Results are taken to stay below the overflow threshold \<open>2 ^ 1024\<close>; the infinities are
  not represented. The sign of zero, which none of the modelled results shows, is dropped.
  Unary minus is exact.
\<close>

definition rne :: "real \<Rightarrow> int" where
  "rne x =
     (let f = \<lfloor>x\<rfloor>; d = x - of_int f
      in if d < 1 / 2 then f else if 1 / 2 < d then f + 1
         else if even f then f else f + 1)"

text \<open>The exponent of the last significand bit of the doubles around \<open>x\<close>.\<close>

definition binExp :: "real \<Rightarrow> int" where
  "binExp x = Max (insert (- 1074) {e \<in> {- 1074..971}. 2 powi (e + 52) \<le> \<bar>x\<bar>})"

definition fl64 :: "real \<Rightarrow> real" where
  "fl64 x = of_int (rne (x / 2 powi binExp x)) * 2 powi binExp x"

definition dadd :: "real \<Rightarrow> real \<Rightarrow> real" where
  "dadd a b = fl64 (a + b)"

definition dsub :: "real \<Rightarrow> real \<Rightarrow> real" where
  "dsub a b = fl64 (a - b)"


text \<open>The reals that are doubles: the values a \<open>number\<close> of the program can have.\<close>

definition isDouble :: "real \<Rightarrow> bool" where
  "isDouble x = (fl64 x = x)"

section \<open>Data model\<close>

text \<open>
  The TypeScript types of the bookkeeping application. Both interfaces have a field
  \<open>id\<close>; the fields are named \<open>txId\<close> and \<open>accId\<close> here, and \<open>type\<close> is \<open>txType\<close>.
\<close>

datatype TransactionType = debit | credit

datatype AccountCategory =
  asset | liability | equity | income | expense | cost_of_sales | other_income | other_expense

record Transaction =
  txId :: string
  date :: string
  description :: string
  accountId :: string
  txType :: TransactionType
  amount :: real

record Account =
  accId :: string
  accName :: string
  category :: AccountCategory
  normalBalance :: TransactionType
  beginningBalance :: real

section \<open>Values and plain objects\<close>

text \<open>
  What a property of the plain object \<open>accountBalances\<close> and an expression over it can
  hold: a finite number, \<open>NaN\<close>, \<open>undefined\<close>, something inherited from
  \<open>Object.prototype\<close> (the prototype itself under the key \<open>__proto__\<close>, a built-in
  method under its name), or a string that \<open>+\<close> made of such an object. The text of
  the string is not modelled: it holds \<open>[object Object]\<close> or a function's source, so it
  is not empty and does not read as a number.
\<close>

datatype JsValue = Num real | NaN | Undefined | Inherited | Str






text \<open>\<open>v || 0\<close>: \<open>0\<close>, \<open>NaN\<close> and \<open>undefined\<close> are falsy; an object and a non-empty string are not.\<close>

fun jsOrZero :: "JsValue \<Rightarrow> JsValue" where
  "jsOrZero (Num a) = (if a = 0 then Num 0 else Num a)"
| "jsOrZero NaN = Num 0"
| "jsOrZero Undefined = Num 0"
| "jsOrZero v = v"

section \<open>Balance accumulator (component Reports)\<close>

text \<open>
  \<open>tx.type === account.normalBalance ? tx.amount : -tx.amount\<close>, the expression the
  reports and both ledger views share.
\<close>

definition amountChange :: "Account \<Rightarrow> Transaction \<Rightarrow> real" where
  "amountChange account tx =
     (if txType tx = normalBalance account then amount tx else - amount tx)"




section \<open>Statement classifier (component Reports)\<close>








text \<open>
  The quantities the statements below are compared with. \<open>sum64\<close> adds a list the way
  \<open>reduce\<close> and a \<open>+=\<close> loop do: from zero, left to right, every addition rounded.
  \<open>signedSum64\<close> is that sum over the sign-adjusted amounts of the transactions that
  reference an account; \<open>signedSum\<close> is the same sum in exact arithmetic.
\<close>

definition sum64 :: "real list \<Rightarrow> real" where
  "sum64 xs = foldl dadd 0 xs"

definition signedSum64 :: "Account \<Rightarrow> Transaction list \<Rightarrow> real" where
  "signedSum64 a transactions =
     sum64 (map (amountChange a) (filter (\<lambda>tx. accountId tx = accId a) transactions))"

definition signedSum :: "Account \<Rightarrow> Transaction list \<Rightarrow> real" where
  "signedSum a transactions =
     (\<Sum>tx\<leftarrow>filter (\<lambda>tx. accountId tx = accId a) transactions. amountChange a tx)"

text \<open>
  Net income as the code computes it: the revenue balances added up, the expense
  balances added up, and the difference, each step rounded.
\<close>

definition netIncome64 :: "Account list \<Rightarrow> Transaction list \<Rightarrow> real" where
  "netIncome64 accounts transactions =
     dsub
       (sum64 (map (\<lambda>a. signedSum64 a transactions)
          (filter (\<lambda>a. category a = income \<or> category a = other_income) accounts)))
       (sum64 (map (\<lambda>a. signedSum64 a transactions)
          (filter (\<lambda>a. category a = expense \<or> category a = cost_of_sales
                       \<or> category a = other_expense) accounts)))"

section \<open>General ledger (component GeneralLedger)\<close>

record Company =
  companyId :: string
  companyName :: string
  address :: "string option"
  phone :: "string option"
  npwp :: "string option"
  fiscalYearStart :: "string option"
  fiscalYearEnd :: "string option"

text \<open>
  The \<open>Date\<close> constructor is the platform's; the ledger takes it as a parameter
  \<open>newDate\<close>, the time value (milliseconds) of \<open>new Date(s)\<close>, with \<open>None\<close> for an
  Invalid Date, whose time value is NaN. Every comparison with NaN is false.
\<close>

type_synonym DateCtor = "string \<Rightarrow> int option"

definition dateLess :: "int option \<Rightarrow> int option \<Rightarrow> bool" where
  "dateLess a b = (case a of None \<Rightarrow> False
                   | Some x \<Rightarrow> (case b of None \<Rightarrow> False | Some y \<Rightarrow> x < y))"

text \<open>A template literal prints a missing optional string as \<open>undefined\<close>.\<close>

definition templateStr :: "string option \<Rightarrow> string" where
  "templateStr v = (case v of None \<Rightarrow> ''undefined'' | Some s \<Rightarrow> s)"

record LedgerSummaryData =
  rowAccountId :: string
  rowAccountName :: string
  rowBeginningBalance :: real
  rowTotalDebit :: real
  rowTotalCredit :: real
  rowEndingBalance :: real

text \<open>
  The body of \<open>for (const tx of allAccountTx)\<close> on the three accumulators
  \<open>(beginningBalance, totalDebit, totalCredit)\<close>.
\<close>

fun summaryStep ::
  "DateCtor \<Rightarrow> int option \<Rightarrow> Account \<Rightarrow> real \<times> real \<times> real \<Rightarrow> Transaction
     \<Rightarrow> real \<times> real \<times> real" where
  "summaryStep newDate startDate account (bb, totalDebit, totalCredit) tx =
     (let txDate = newDate (date tx @ ''T00:00:00'');
          change = amountChange account tx
      in if dateLess txDate startDate then (dadd bb change, totalDebit, totalCredit)
         else (let totalDebit' = (if txType tx = debit then dadd totalDebit (amount tx)
                                  else totalDebit);
                   totalCredit' = (if txType tx = credit then dadd totalCredit (amount tx)
                                   else totalCredit)
               in (bb, totalDebit', totalCredit')))"

text \<open>The body of \<open>for (const account of accountsToProcess)\<close>: one row.\<close>

definition summaryRow ::
  "DateCtor \<Rightarrow> int option \<Rightarrow> Transaction list \<Rightarrow> Account \<Rightarrow> LedgerSummaryData" where
  "summaryRow newDate startDate transactions account =
     (let allAccountTx = filter (\<lambda>tx. accountId tx = accId account) transactions
      in case foldl (summaryStep newDate startDate account)
                (beginningBalance account, 0, 0) allAccountTx of
           (bb, totalDebit, totalCredit) \<Rightarrow>
             (let mutationChange = (if normalBalance account = debit
                                    then dsub totalDebit totalCredit
                                    else dsub totalCredit totalDebit);
                  endingBalance = dadd bb mutationChange
              in \<lparr>rowAccountId = accId account, rowAccountName = accName account,
                  rowBeginningBalance = bb, rowTotalDebit = totalDebit,
                  rowTotalCredit = totalCredit, rowEndingBalance = endingBalance\<rparr>))"

definition accountsToProcess :: "Account list \<Rightarrow> Transaction list \<Rightarrow> Account list" where
  "accountsToProcess accounts transactions =
     filter (\<lambda>acc. beginningBalance acc \<noteq> 0
                  \<or> list_ex (\<lambda>tx. accountId tx = accId acc) transactions) accounts"

definition ledgerSummary ::
  "DateCtor \<Rightarrow> Company \<Rightarrow> Account list \<Rightarrow> Transaction list \<Rightarrow> LedgerSummaryData list" where
  "ledgerSummary newDate company accounts transactions =
     (let startDate = newDate (templateStr (fiscalYearStart company) @ ''T00:00:00'')
      in map (summaryRow newDate startDate transactions)
           (accountsToProcess accounts transactions))"

text \<open>
  The comparator \<open>new Date(a.date).getTime() - new Date(b.date).getTime()\<close>; \<open>None\<close> is
  NaN, which \<open>Array.prototype.sort\<close> reads as \<open>+0\<close>.
\<close>

definition compareDates :: "DateCtor \<Rightarrow> Transaction \<Rightarrow> Transaction \<Rightarrow> int option" where
  "compareDates newDate a b =
     (case newDate (date a) of None \<Rightarrow> None
      | Some x \<Rightarrow> (case newDate (date b) of None \<Rightarrow> None | Some y \<Rightarrow> Some (x - y)))"

text \<open>
  \<open>Array.prototype.sort\<close> is the platform's too and is a parameter \<open>arraySort\<close>. With
  an invalid date the comparator is not consistent and the order the sort leaves is the
  engine's own choice; it always rearranges the array, and that is all the theorems
  ask of \<open>arraySort\<close>.
\<close>

type_synonym ArraySort =
  "(Transaction \<Rightarrow> Transaction \<Rightarrow> int option) \<Rightarrow> Transaction list \<Rightarrow> Transaction list"

text \<open>A ledger line \<open>{ ...tx, balance: runningBalance }\<close>.\<close>

record LedgerEntry =
  entryTx :: Transaction
  balance :: real

text \<open>\<open>filteredTx.map\<close> with the captured \<open>runningBalance\<close> threaded through.\<close>

fun runningBalances :: "Account \<Rightarrow> real \<Rightarrow> Transaction list \<Rightarrow> LedgerEntry list" where
  "runningBalances account runningBalance [] = []"
| "runningBalances account runningBalance (tx # txs) =
     (let runningBalance' = dadd runningBalance (amountChange account tx)
      in \<lparr>entryTx = tx, balance = runningBalance'\<rparr>
           # runningBalances account runningBalance' txs)"

definition ledgerDetail ::
  "ArraySort \<Rightarrow> DateCtor \<Rightarrow> Account list \<Rightarrow> Transaction list \<Rightarrow> string
     \<Rightarrow> LedgerEntry list" where
  "ledgerDetail arraySort newDate accounts transactions selectedAccountId =
     (case find (\<lambda>acc. accId acc = selectedAccountId) accounts of
        None \<Rightarrow> []
      | Some account \<Rightarrow>
          (let filteredTx = arraySort (compareDates newDate)
                 (filter (\<lambda>tx. accountId tx = selectedAccountId) transactions)
           in runningBalances account (beginningBalance account) filteredTx))"

datatype LedgerData =
  NoSelection | Summary "LedgerSummaryData list" | Detail "LedgerEntry list"

text \<open>The \<open>useMemo\<close> of \<open>ledgerData\<close>: \<open>null\<close>, the summary of all accounts, or one account.\<close>

definition ledgerDataWith ::
  "ArraySort \<Rightarrow> DateCtor \<Rightarrow> Company \<Rightarrow> Account list \<Rightarrow> Transaction list \<Rightarrow> string
     \<Rightarrow> LedgerData" where
  "ledgerDataWith arraySort newDate company accounts transactions selectedAccountId =
     (if selectedAccountId = [] then NoSelection
      else if selectedAccountId = ''all''
        then Summary (ledgerSummary newDate company accounts transactions)
      else Detail (ledgerDetail arraySort newDate accounts transactions selectedAccountId))"

text \<open>
  A stable sort: what every engine's sort gives when all the dates are valid, and the
  sort of the samples below.
\<close>

definition comesAfter :: "('a \<Rightarrow> 'a \<Rightarrow> int option) \<Rightarrow> 'a \<Rightarrow> 'a \<Rightarrow> bool" where
  "comesAfter cmp x y = (case cmp x y of None \<Rightarrow> False | Some v \<Rightarrow> 0 < v)"

fun insertSorted :: "('a \<Rightarrow> 'a \<Rightarrow> int option) \<Rightarrow> 'a \<Rightarrow> 'a list \<Rightarrow> 'a list" where
  "insertSorted cmp x [] = [x]"
| "insertSorted cmp x (y # ys) =
     (if comesAfter cmp x y then y # insertSorted cmp x ys else x # y # ys)"

fun sortBy :: "('a \<Rightarrow> 'a \<Rightarrow> int option) \<Rightarrow> 'a list \<Rightarrow> 'a list" where
  "sortBy cmp [] = []"
| "sortBy cmp (x # xs) = insertSorted cmp x (sortBy cmp xs)"

text \<open>
  The ledger under the stable sort. The all-accounts view does not sort; the
  single-account view is the engine's whenever the dates of the account's transactions
  are valid.
\<close>

definition ledgerData ::
  "DateCtor \<Rightarrow> Company \<Rightarrow> Account list \<Rightarrow> Transaction list \<Rightarrow> string \<Rightarrow> LedgerData" where
  "ledgerData newDate company accounts transactions selectedAccountId =
     ledgerDataWith sortBy newDate company accounts transactions selectedAccountId"

text \<open>
  The balance a single-account view ends on: the running balance of its last line, or
  the account's beginning balance when it has no line.
\<close>

definition finalBalance :: "Account \<Rightarrow> LedgerEntry list \<Rightarrow> real" where
  "finalBalance account es = (if es = [] then beginningBalance account else balance (last es))"

section \<open>Account form (component AccountModal)\<close>

definition debitCategories :: "AccountCategory list" where
  "debitCategories = [asset, cost_of_sales, expense, other_expense]"

text \<open>
  The effect on \<open>account.category\<close>: \<open>setAccount(prev => ({ ...prev, normalBalance }))\<close>,
  run on the state whose category triggered it.
\<close>

definition categoryEffect :: "Account \<Rightarrow> Account" where
  "categoryEffect prev =
     (if category prev \<in> set debitCategories
      then prev\<lparr>normalBalance := debit\<rparr>
      else prev\<lparr>normalBalance := credit\<rparr>)"

section \<open>Transaction form (TransactionModal, handleSaveTransaction)\<close>




















section \<open>A sample company\<close>

text \<open>The accounts and transactions of the worked examples, used to instantiate the theorems.\<close>

definition exKas :: Account where
  "exKas = \<lparr>accId = ''1-1130'', accName = ''Kas'', category = asset,
             normalBalance = debit, beginningBalance = 1000000\<rparr>"

definition exLabaDitahan :: Account where
  "exLabaDitahan = \<lparr>accId = ''3-9999'', accName = ''Laba Ditahan'', category = equity,
                      normalBalance = credit, beginningBalance = 0\<rparr>"

definition exPendapatan :: Account where
  "exPendapatan = \<lparr>accId = ''4-4000'', accName = ''Pendapatan Jasa'', category = income,
                     normalBalance = credit, beginningBalance = 0\<rparr>"

definition exBeban :: Account where
  "exBeban = \<lparr>accId = ''6-6000'', accName = ''Beban Sewa'', category = expense,
                normalBalance = debit, beginningBalance = 0\<rparr>"


definition exAccounts :: "Account list" where
  "exAccounts = [exKas, exLabaDitahan, exPendapatan, exBeban]"

definition exTransactions :: "Transaction list" where
  "exTransactions =
     [\<lparr>txId = ''t1'', date = ''2025-01-10'', description = ''Setoran'',
       accountId = ''1-1130'', txType = debit, amount = 500000\<rparr>,
      \<lparr>txId = ''t2'', date = ''2025-01-15'', description = ''Penarikan'',
       accountId = ''1-1130'', txType = credit, amount = 200000\<rparr>,
      \<lparr>txId = ''t3'', date = ''2024-12-20'', description = ''Jasa Desember'',
       accountId = ''4-4000'', txType = credit, amount = 300000\<rparr>,
      \<lparr>txId = ''t4'', date = ''2025-02-01'', description = ''Jasa Februari'',
       accountId = ''4-4000'', txType = credit, amount = 500000\<rparr>,
      \<lparr>txId = ''t5'', date = ''2025-02-03'', description = ''Sewa'',
       accountId = ''6-6000'', txType = debit, amount = 300000\<rparr>,
      \<lparr>txId = ''t6'', date = ''2025-02-04'', description = ''Tanpa akun'',
       accountId = ''9-0000'', txType = debit, amount = 42\<rparr>]"


definition exCompany :: Company where
  "exCompany = \<lparr>companyId = ''c1'', companyName = ''PT Contoh'', address = None,
                 phone = None, npwp = None, fiscalYearStart = Some ''2025-01-01'',
                 fiscalYearEnd = Some ''2025-12-31''\<rparr>"

text \<open>A date constructor on the sample's dates (UTC milliseconds); any other string is invalid.\<close>

definition exNewDate :: DateCtor where
  "exNewDate = map_of
     [(''2024-12-20T00:00:00'', 1734652800000), (''2024-12-20'', 1734652800000),
      (''2025-01-01T00:00:00'', 1735689600000), (''2025-01-01'', 1735689600000),
      (''2025-01-10T00:00:00'', 1736467200000), (''2025-01-10'', 1736467200000),
      (''2025-01-12T00:00:00'', 1736640000000), (''2025-01-12'', 1736640000000),
      (''2025-01-15T00:00:00'', 1736899200000), (''2025-01-15'', 1736899200000),
      (''2025-02-01T00:00:00'', 1738368000000), (''2025-02-01'', 1738368000000),
      (''2025-02-03T00:00:00'', 1738540800000), (''2025-02-03'', 1738540800000),
      (''2025-02-04T00:00:00'', 1738627200000), (''2025-02-04'', 1738627200000)]"






text \<open>
  An account in cents, with amounts that are not whole numbers: the decimal literals
  denote the nearest doubles.
\<close>

definition exKasKecil :: Account where
  "exKasKecil = \<lparr>accId = ''1-1110'', accName = ''Kas Kecil'', category = asset,
                   normalBalance = debit, beginningBalance = fl64 0.07\<rparr>"

definition exSen :: "Transaction list" where
  "exSen =
     [\<lparr>txId = ''s1'', date = ''2025-01-10'', description = ''Masuk'',
       accountId = ''1-1110'', txType = debit, amount = fl64 0.01\<rparr>,
      \<lparr>txId = ''s2'', date = ''2025-01-15'', description = ''Keluar'',
       accountId = ''1-1110'', txType = credit, amount = fl64 0.14\<rparr>]"

section \<open>Properties of the rounding\<close>

lemma rne_of_int: "rne (of_int n) = n"
  by (simp add: rne_def)

lemma rne_bounds: "\<lfloor>x\<rfloor> \<le> rne x \<and> rne x \<le> \<lceil>x\<rceil>"
proof -
  have "x - of_int \<lfloor>x\<rfloor> = 0 \<Longrightarrow> \<lceil>x\<rceil> = \<lfloor>x\<rfloor>"
    by (metis ceiling_of_int diff_eq_eq add.left_neutral)
  moreover have "\<lfloor>x\<rfloor> + 1 \<le> \<lceil>x\<rceil>" if "x - of_int \<lfloor>x\<rfloor> \<noteq> 0"
    using that by (metis ceiling_altdef diff_self order_refl)
  ultimately show ?thesis
    by (auto simp: rne_def Let_def)
qed

lemma rne_abs_le: "\<bar>x\<bar> \<le> of_int n \<Longrightarrow> \<bar>rne x\<bar> \<le> n"
proof -
  assume a: "\<bar>x\<bar> \<le> of_int n"
  then have "- n \<le> \<lfloor>x\<rfloor>" by (simp add: le_floor_iff abs_le_iff)
  moreover from a have "\<lceil>x\<rceil> \<le> n" by (simp add: ceiling_le_iff abs_le_iff)
  ultimately show ?thesis using rne_bounds [of x] by linarith
qed


lemma binExp_finite:
  "finite (insert (- 1074) {e \<in> {- 1074..971}. 2 powi (e + 52) \<le> \<bar>x :: real\<bar>})"
  by (rule finite.insertI, rule finite_subset [of _ "{- 1074..971}"]) auto

lemma binExp_ge: "- 1074 \<le> binExp x"
  unfolding binExp_def by (rule Max_ge [OF binExp_finite]) simp

lemma binExp_in: "binExp x = - 1074 \<or> (binExp x \<le> 971 \<and> 2 powi (binExp x + 52) \<le> \<bar>x\<bar>)"
  using Max_in [OF binExp_finite, of x] by (auto simp: binExp_def)

lemma binExp_le: "binExp x \<le> 971"
  using binExp_in [of x] by auto

lemma binExp_max:
  "- 1074 \<le> e \<Longrightarrow> e \<le> 971 \<Longrightarrow> 2 powi (e + 52) \<le> \<bar>x\<bar> \<Longrightarrow> e \<le> binExp x"
  unfolding binExp_def by (rule Max_ge [OF binExp_finite]) simp

lemma powi2_le_imp: "2 powi a \<le> (x::real) \<Longrightarrow> x < 2 powi b \<Longrightarrow> a < b"
proof (rule ccontr)
  assume 1: "2 powi a \<le> x" and 2: "x < 2 powi b" and "\<not> a < b"
  then have "b \<le> a" by simp
  then have "(2::real) powi b \<le> 2 powi a" by (intro power_int_increasing) simp_all
  with 1 2 show False by linarith
qed

lemma binExp_eqI:
  assumes "- 1074 \<le> e" and "e \<le> 971"
    and "2 powi (e + 52) \<le> \<bar>x\<bar> \<or> e = - 1074"
    and "\<bar>x\<bar> < 2 powi (e + 53)"
  shows "binExp x = e"
proof (rule antisym)
  from binExp_in [of x] show "binExp x \<le> e"
  proof
    assume "binExp x = - 1074"
    with assms(1) show ?thesis by simp
  next
    assume "binExp x \<le> 971 \<and> 2 powi (binExp x + 52) \<le> \<bar>x\<bar>"
    with assms(4) have "binExp x + 52 < e + 53" by (intro powi2_le_imp [of _ "\<bar>x\<bar>"]) simp_all
    then show ?thesis by simp
  qed
  from assms(3) show "e \<le> binExp x"
  proof
    assume "2 powi (e + 52) \<le> \<bar>x\<bar>"
    with assms(1,2) show ?thesis by (rule binExp_max)
  next
    assume "e = - 1074"
    then show ?thesis by (simp add: binExp_ge)
  qed
qed

lemma fl64_eval: "binExp x = e \<Longrightarrow> fl64 x = of_int (rne (x / 2 powi e)) * 2 powi e"
  by (simp add: fl64_def)

lemma fl64_of_grid:
  assumes "x / 2 powi binExp x = of_int k"
  shows "fl64 x = x"
proof -
  have "fl64 x = of_int k * 2 powi binExp x"
    by (simp add: fl64_def assms rne_of_int)
  also have "\<dots> = x" using assms by (simp add: field_simps)
  finally show ?thesis .
qed

lemma powi2_diff_int: "b \<le> a \<Longrightarrow> (2::real) powi a / 2 powi b = of_int (2 ^ nat (a - b))"
proof -
  assume "b \<le> a"
  have "(2::real) powi a / 2 powi b = 2 powi (a - b)" by (simp add: power_int_diff)
  also have "\<dots> = 2 ^ nat (a - b)" using \<open>b \<le> a\<close> by (simp add: power_int_nonneg_exp)
  finally show ?thesis by simp
qed

lemma fl64_exact:
  assumes x: "x = of_int m * 2 powi e" and e: "- 1074 \<le> e"
    and m: "\<bar>m\<bar> \<le> 2 ^ 53 \<or> 971 \<le> e"
  shows "fl64 x = x"
proof (cases "binExp x \<le> e")
  case True
  have "x / 2 powi binExp x = of_int m * (2 powi e / 2 powi binExp x)"
    by (simp add: x)
  also have "\<dots> = of_int (m * 2 ^ nat (e - binExp x))"
    by (simp add: powi2_diff_int [OF True])
  finally show ?thesis by (rule fl64_of_grid)
next
  case False
  then have lt: "e < binExp x" by simp
  with e have "binExp x \<noteq> - 1074" by simp
  with binExp_in [of x] have b: "2 powi (binExp x + 52) \<le> \<bar>x\<bar>" by simp
  from lt binExp_le [of x] m have m53: "\<bar>m\<bar> \<le> 2 ^ 53" by linarith
  have ax: "\<bar>x\<bar> = of_int \<bar>m\<bar> * 2 powi e"
    by (simp add: x abs_mult)
  have "\<bar>x\<bar> \<le> 2 ^ 53 * 2 powi e"
  proof -
    from m53 have "(of_int \<bar>m\<bar> :: real) \<le> of_int (2 ^ 53)" by (simp only: of_int_le_iff)
    then have "(of_int \<bar>m\<bar> :: real) \<le> 2 ^ 53" by simp
    then show ?thesis unfolding ax by (intro mult_right_mono) simp_all
  qed
  also have "\<dots> = 2 powi (e + 53)" by (simp add: power_int_add)
  finally have up: "\<bar>x\<bar> \<le> 2 powi (e + 53)" .
  have "binExp x + 52 \<le> e + 53"
  proof (rule ccontr)
    assume "\<not> binExp x + 52 \<le> e + 53"
    then have "e + 53 < binExp x + 52" by simp
    then have "(2::real) powi (e + 53) < 2 powi (binExp x + 52)"
      by (intro power_int_strict_increasing) simp_all
    with up b show False by linarith
  qed
  with lt have be: "binExp x = e + 1" by simp
  have "(2::real) powi (binExp x + 52) = 2 powi (e + 53)" by (simp add: be add.commute)
  with b up have "\<bar>x\<bar> = 2 powi (e + 53)" by simp
  then have "\<bar>x\<bar> / 2 powi binExp x = 2 powi (e + 53) / 2 powi (e + 1)" by (simp add: be)
  also have "\<dots> = of_int (2 ^ 52)"
    by (simp add: power_int_diff [symmetric] del: of_int_power)
  finally have q: "\<bar>x\<bar> / 2 powi binExp x = of_int (2 ^ 52)" .
  show ?thesis
  proof (cases "0 \<le> x")
    case True
    with q have "x / 2 powi binExp x = of_int (2 ^ 52)" by simp
    then show ?thesis by (rule fl64_of_grid)
  next
    case False
    with q have "x / 2 powi binExp x = of_int (- (2 ^ 52))" by simp
    then show ?thesis by (rule fl64_of_grid)
  qed
qed

lemma binExp_upper: "binExp x < 971 \<Longrightarrow> \<bar>x\<bar> < 2 powi (binExp x + 53)"
proof (rule ccontr)
  assume lt: "binExp x < 971" and "\<not> \<bar>x\<bar> < 2 powi (binExp x + 53)"
  then have "2 powi (binExp x + 1 + 52) \<le> \<bar>x\<bar>" by (simp add: add.commute add.left_commute)
  moreover from binExp_ge [of x] have "- 1074 \<le> binExp x + 1" by simp
  moreover from lt have "binExp x + 1 \<le> 971" by simp
  ultimately have "binExp x + 1 \<le> binExp x" by (intro binExp_max)
  then show False by simp
qed

lemma fl64_idem: "fl64 (fl64 x) = fl64 x"
proof (rule fl64_exact [where m = "rne (x / 2 powi binExp x)" and e = "binExp x"])
  show "fl64 x = of_int (rne (x / 2 powi binExp x)) * 2 powi binExp x"
    by (simp add: fl64_def)
  show "- 1074 \<le> binExp x" by (rule binExp_ge)
  show "\<bar>rne (x / 2 powi binExp x)\<bar> \<le> 2 ^ 53 \<or> 971 \<le> binExp x"
  proof (cases "binExp x < 971")
    case True
    then have "\<bar>x\<bar> < 2 powi (binExp x + 53)" by (rule binExp_upper)
    also have "\<dots> = 2 ^ 53 * 2 powi binExp x" by (simp add: power_int_add)
    finally have "\<bar>x\<bar> / 2 powi binExp x < 2 ^ 53" by (simp add: field_simps)
    then have "\<bar>x / 2 powi binExp x\<bar> \<le> of_int (2 ^ 53)" by simp
    then show ?thesis by (intro disjI1 rne_abs_le)
  next
    case False
    then show ?thesis by simp
  qed
qed


lemma fl64_of_int: "\<bar>n\<bar> \<le> 2 ^ 53 \<Longrightarrow> fl64 (of_int n) = of_int n"
  by (rule fl64_exact [where m = n and e = 0]) simp_all

lemma fl64_0: "fl64 0 = 0"
  using fl64_of_int [of 0] by simp

lemma rne_minus: "rne (- x) = - rne x"
proof (cases "x = of_int \<lfloor>x\<rfloor>")
  case True
  then obtain n where "x = of_int n" ..
  then have "- x = of_int (- n)" by simp
  then show ?thesis unfolding \<open>x = of_int n\<close> by (simp only: rne_of_int)
next
  case False
  have "of_int \<lfloor>x\<rfloor> \<le> x" and "x < of_int \<lfloor>x\<rfloor> + 1" by linarith+
  with False have "of_int (- \<lfloor>x\<rfloor> - 1) \<le> - x" and "- x < of_int (- \<lfloor>x\<rfloor> - 1) + 1"
    unfolding of_int_diff of_int_minus of_int_1 by linarith+
  then have f: "\<lfloor>- x\<rfloor> = - \<lfloor>x\<rfloor> - 1"
    by (rule floor_unique)
  have d: "- x - of_int (- \<lfloor>x\<rfloor> - 1) = 1 - (x - of_int \<lfloor>x\<rfloor>)" by simp
  show ?thesis
    unfolding rne_def Let_def f d by auto
qed

lemma binExp_minus: "binExp (- x) = binExp x"
  by (simp add: binExp_def)

lemma fl64_minus: "fl64 (- x) = - fl64 x"
  by (simp add: fl64_def binExp_minus rne_minus)

lemma isDouble_minus: "isDouble x \<Longrightarrow> isDouble (- x)"
  by (simp add: isDouble_def fl64_minus)


lemma dadd_int:
  assumes "a \<in> \<int>" and "b \<in> \<int>" and "\<bar>a + b\<bar> \<le> 2 ^ 53"
  shows "dadd a b = a + b"
proof -
  from assms(1,2) obtain m n where a: "a = of_int m" and b: "b = of_int n"
    by (auto elim!: Ints_cases)
  from assms(3) have "\<bar>m + n\<bar> \<le> 2 ^ 53"
    unfolding a b by (metis of_int_abs of_int_add of_int_le_iff of_int_numeral of_int_power)
  then have "fl64 (of_int (m + n)) = of_int (m + n)" by (rule fl64_of_int)
  then show ?thesis by (simp add: dadd_def a b)
qed

lemma rne_eqI: "\<bar>x - of_int m\<bar> < 1 / 2 \<Longrightarrow> rne x = m"
proof (cases "of_int m \<le> x")
  case True
  assume a: "\<bar>x - of_int m\<bar> < 1 / 2"
  with True have "\<lfloor>x\<rfloor> = m" by (intro floor_unique) (simp_all add: abs_less_iff)
  with a True show ?thesis by (simp add: rne_def Let_def abs_less_iff)
next
  case False
  assume a: "\<bar>x - of_int m\<bar> < 1 / 2"
  with False have "of_int (m - 1) \<le> x" and "x < of_int (m - 1) + 1"
    by (simp_all add: abs_less_iff)
  then have "\<lfloor>x\<rfloor> = m - 1" by (rule floor_unique)
  with a False show ?thesis by (simp add: rne_def Let_def abs_less_iff)
qed

lemma fl64_eqI:
  assumes "- 1074 \<le> e" and "e \<le> 971"
    and "2 powi (e + 52) \<le> \<bar>x\<bar>" and "\<bar>x\<bar> < 2 powi (e + 53)"
    and "\<bar>x - of_int m * 2 powi e\<bar> < 2 powi (e - 1)"
  shows "fl64 x = of_int m * 2 powi e"
proof -
  have b: "binExp x = e"
    using assms(1-4) by (intro binExp_eqI) simp_all
  have "x / 2 powi e - of_int m = (x - of_int m * 2 powi e) / 2 powi e"
    by (simp add: field_simps)
  then have "\<bar>x / 2 powi e - of_int m\<bar> = \<bar>x - of_int m * 2 powi e\<bar> / 2 powi e"
    by (simp add: abs_divide)
  also have "\<dots> < 2 powi (e - 1) / 2 powi e"
    using assms(5) by (intro divide_strict_right_mono) simp_all
  also have "\<dots> = 1 / 2" by (simp add: power_int_diff)
  finally have "rne (x / 2 powi e) = m" by (rule rne_eqI)
  with b show ?thesis by (simp add: fl64_def)
qed



lemma fl64_numeral: "numeral n \<le> (2::int) ^ 53 \<Longrightarrow> fl64 (numeral n) = numeral n"
  using fl64_of_int [of "numeral n"] by simp

lemma fl64_neg_numeral:
  "numeral n \<le> (2::int) ^ 53 \<Longrightarrow> fl64 (- numeral n) = - numeral n"
  by (simp add: fl64_minus fl64_numeral)







lemma dsub_int:
  assumes "a \<in> \<int>" and "b \<in> \<int>" and "\<bar>a - b\<bar> \<le> 2 ^ 53"
  shows "dsub a b = a - b"
proof -
  from assms(2) have "- b \<in> \<int>" by simp
  with assms(1) have "dadd a (- b) = a + - b"
    using assms(3) by (intro dadd_int) simp_all
  then show ?thesis by (simp add: dadd_def dsub_def)
qed

lemma foldl_dadd_int:
  assumes "z \<in> \<int>" and "\<forall>x\<in>set xs. x \<in> \<int>"
    and "\<bar>z\<bar> + (\<Sum>x\<leftarrow>xs. \<bar>x\<bar>) \<le> 2 ^ 53"
  shows "foldl dadd z xs = z + sum_list xs"
  using assms
proof (induction xs arbitrary: z)
  case Nil
  show ?case by simp
next
  case (Cons x xs)
  have nn: "0 \<le> (\<Sum>x\<leftarrow>xs. \<bar>x\<bar>)" by (rule sum_list_nonneg) auto
  from Cons.prems have x: "x \<in> \<int>" by simp
  from Cons.prems(3) nn have "\<bar>z + x\<bar> \<le> 2 ^ 53" by simp
  with Cons.prems(1) x have d: "dadd z x = z + x" by (intro dadd_int)
  from Cons.prems(1) x have "z + x \<in> \<int>" by simp
  moreover from Cons.prems(2) have "\<forall>y\<in>set xs. y \<in> \<int>" by simp
  moreover from Cons.prems(3) have "\<bar>z + x\<bar> + (\<Sum>x\<leftarrow>xs. \<bar>x\<bar>) \<le> 2 ^ 53" by simp
  ultimately have "foldl dadd (z + x) xs = z + x + sum_list xs" by (rule Cons.IH)
  with d show ?case by simp
qed


section \<open>Properties of the balance accumulator\<close>

lemma amountChange_fun:
  "amountChange a = (\<lambda>tx. if txType tx = normalBalance a then amount tx else - amount tx)"
  by (rule ext) (simp add: amountChange_def)





lemma find_accId_distinct:
  "distinct (map accId accounts) \<Longrightarrow> a \<in> set accounts \<Longrightarrow>
     find (\<lambda>acc. accId acc = accId a) accounts = Some a"
  by (induction accounts) auto











lemma sum_list_abs_filter_le: "(\<Sum>x\<leftarrow>filter P xs. \<bar>f x :: real\<bar>) \<le> (\<Sum>x\<leftarrow>xs. \<bar>f x\<bar>)"
  by (induction xs) auto

lemma abs_amountChange: "\<bar>amountChange a tx\<bar> = \<bar>amount tx\<bar>"
  by (simp add: amountChange_def)

lemma amountChange_Ints: "amount tx \<in> \<int> \<Longrightarrow> amountChange a tx \<in> \<int>"
  by (simp add: amountChange_def)



lemmas ex_defs = exAccounts_def exTransactions_def exKas_def exLabaDitahan_def
      exPendapatan_def exBeban_def

lemmas num_evals = sum64_def dadd_def dsub_def fl64_numeral fl64_neg_numeral fl64_0


section \<open>Properties of the reports\<close>

lemma jsOrZero_Num: "jsOrZero (Num a) = Num a"
  by simp













lemma ex_signedSums:
  "signedSum64 exKas exTransactions = 300000"
  "signedSum64 exLabaDitahan exTransactions = 0"
  "signedSum64 exPendapatan exTransactions = 800000"
  "signedSum64 exBeban exTransactions = 300000"
  by (simp_all add: signedSum64_def amountChange_def ex_defs num_evals)

lemma ex_netIncome: "netIncome64 exAccounts exTransactions = 500000"
  by (simp add: netIncome64_def exAccounts_def ex_signedSums num_evals)
    (simp add: ex_defs)














section \<open>Properties of the general ledger\<close>

lemma foldl_summaryStep:
  "foldl (summaryStep newDate startDate a) (bb, td, tc) txs =
     (foldl dadd bb
        (map (amountChange a)
           (filter (\<lambda>tx. dateLess (newDate (date tx @ ''T00:00:00'')) startDate) txs)),
      foldl dadd td
        (map amount
           (filter (\<lambda>tx. \<not> dateLess (newDate (date tx @ ''T00:00:00'')) startDate
                         \<and> txType tx = debit) txs)),
      foldl dadd tc
        (map amount
           (filter (\<lambda>tx. \<not> dateLess (newDate (date tx @ ''T00:00:00'')) startDate
                         \<and> txType tx = credit) txs)))"
  by (induction txs arbitrary: bb td tc) (simp_all add: Let_def)

lemma summaryRow_fields:
  "summaryRow newDate startDate transactions a =
     (let before = (\<lambda>tx. dateLess (newDate (date tx @ ''T00:00:00'')) startDate);
          own = filter (\<lambda>tx. accountId tx = accId a) transactions;
          bb = foldl dadd (beginningBalance a) (map (amountChange a) (filter before own));
          td = foldl dadd 0
                 (map amount (filter (\<lambda>tx. \<not> before tx \<and> txType tx = debit) own));
          tc = foldl dadd 0
                 (map amount (filter (\<lambda>tx. \<not> before tx \<and> txType tx = credit) own))
      in \<lparr>rowAccountId = accId a, rowAccountName = accName a,
          rowBeginningBalance = bb, rowTotalDebit = td, rowTotalCredit = tc,
          rowEndingBalance =
            dadd bb (if normalBalance a = debit then dsub td tc else dsub tc td)\<rparr>)"
  by (simp add: summaryRow_def Let_def foldl_summaryStep)


lemma ex_accountsToProcess:
  "accountsToProcess exAccounts exTransactions = [exKas, exPendapatan, exBeban]"
  by (simp add: accountsToProcess_def ex_defs)

lemma ex_startDate:
  "exNewDate (templateStr (fiscalYearStart exCompany) @ ''T00:00:00'') = Some 1735689600000"
  by (simp add: exCompany_def templateStr_def exNewDate_def)

lemma ex_txDates:
  "map (\<lambda>tx. exNewDate (date tx @ ''T00:00:00'')) exTransactions =
     [Some 1736467200000, Some 1736899200000, Some 1734652800000, Some 1738368000000,
      Some 1738540800000, Some 1738627200000]"
  by (simp add: exTransactions_def exNewDate_def)


lemma ledgerSummary_ids:
  "map rowAccountId (ledgerSummary newDate company accounts transactions) =
     map accId (accountsToProcess accounts transactions)"
  by (simp add: ledgerSummary_def Let_def summaryRow_fields comp_def)

lemma accountsToProcess_set:
  "a \<in> set (accountsToProcess accounts transactions) \<longleftrightarrow>
     a \<in> set accounts
     \<and> (beginningBalance a \<noteq> 0 \<or> (\<exists>tx\<in>set transactions. accountId tx = accId a))"
  by (auto simp: accountsToProcess_def list_ex_iff)

text \<open>
  C9 (trial-balance inclusion). The all-accounts view has one row per account, in list
  order, whose beginning balance is non-zero or which some transaction references; so
  with unique ids an account of the list has a row if and only if its beginning
  balance is non-zero or a transaction carries its id.
\<close>

theorem summary_inclusion:
  "ledgerData newDate company accounts transactions ''all'' =
     Summary (ledgerSummary newDate company accounts transactions)
   \<and> map rowAccountId (ledgerSummary newDate company accounts transactions) =
     map accId (filter (\<lambda>acc. beginningBalance acc \<noteq> 0
                            \<or> (\<exists>tx\<in>set transactions. accountId tx = accId acc)) accounts)
   \<and> (distinct (map accId accounts) \<longrightarrow>
        (\<forall>a\<in>set accounts.
           (\<exists>r\<in>set (ledgerSummary newDate company accounts transactions).
              rowAccountId r = accId a)
           \<longleftrightarrow> (beginningBalance a \<noteq> 0
                \<or> (\<exists>tx\<in>set transactions. accountId tx = accId a))))"
proof -
  let ?rows = "ledgerSummary newDate company accounts transactions"
  have 1: "ledgerData newDate company accounts transactions ''all'' = Summary ?rows"
    by (simp add: ledgerData_def ledgerDataWith_def)
  have 2: "map rowAccountId ?rows =
     map accId (filter (\<lambda>acc. beginningBalance acc \<noteq> 0
                            \<or> (\<exists>tx\<in>set transactions. accountId tx = accId acc)) accounts)"
    by (simp add: ledgerSummary_ids accountsToProcess_def list_ex_iff)
  have 3: "(\<exists>r\<in>set ?rows. rowAccountId r = accId a)
           \<longleftrightarrow> (beginningBalance a \<noteq> 0 \<or> (\<exists>tx\<in>set transactions. accountId tx = accId a))"
    if d: "distinct (map accId accounts)" and a: "a \<in> set accounts" for a
  proof -
    have "(\<exists>r\<in>set ?rows. rowAccountId r = accId a)
          \<longleftrightarrow> accId a \<in> set (map rowAccountId ?rows)"
      by (simp add: image_iff) metis
    also have "\<dots> \<longleftrightarrow> accId a \<in> accId ` set (accountsToProcess accounts transactions)"
      by (simp only: ledgerSummary_ids set_map)
    also have "\<dots> \<longleftrightarrow> a \<in> set (accountsToProcess accounts transactions)"
    proof
      assume "accId a \<in> accId ` set (accountsToProcess accounts transactions)"
      then obtain b where b: "b \<in> set (accountsToProcess accounts transactions)"
        and e: "accId a = accId b" by blast
      from b have "b \<in> set accounts" by (simp add: accountsToProcess_set)
      with d a e have "a = b" by (meson distinct_map inj_onD)
      with b show "a \<in> set (accountsToProcess accounts transactions)" by simp
    next
      assume "a \<in> set (accountsToProcess accounts transactions)"
      then show "accId a \<in> accId ` set (accountsToProcess accounts transactions)"
        by (rule imageI)
    qed
    also have "\<dots> \<longleftrightarrow> (beginningBalance a \<noteq> 0
                   \<or> (\<exists>tx\<in>set transactions. accountId tx = accId a))"
      using a by (simp add: accountsToProcess_set)
    finally show ?thesis .
  qed
  from 1 2 3 show ?thesis by blast
qed

theorem summary_inclusion_witness:
  "distinct (map accId exAccounts)
   \<and> map rowAccountId (ledgerSummary exNewDate exCompany exAccounts exTransactions) =
       [''1-1130'', ''4-4000'', ''6-6000'']
   \<and> beginningBalance exLabaDitahan = 0
   \<and> \<not> (\<exists>tx\<in>set exTransactions. accountId tx = accId exLabaDitahan)
   \<and> \<not> (\<exists>r\<in>set (ledgerSummary exNewDate exCompany exAccounts exTransactions).
           rowAccountId r = accId exLabaDitahan)
   \<and> (\<exists>r\<in>set (ledgerSummary exNewDate exCompany exAccounts exTransactions).
           rowAccountId r = accId exKas)"
  using summary_inclusion [of exNewDate exCompany exAccounts exTransactions]
  by (simp add: ex_defs)

lemma not_debit: "(t \<noteq> debit) = (t = credit)"
  by (cases t) simp_all

lemma period_sums_debit:
  assumes "normalBalance a = debit"
  shows "(\<Sum>tx\<leftarrow>filter B txs. amountChange a tx)
         + ((\<Sum>tx\<leftarrow>filter (\<lambda>tx. \<not> B tx \<and> txType tx = debit) txs. amount tx)
            - (\<Sum>tx\<leftarrow>filter (\<lambda>tx. \<not> B tx \<and> txType tx = credit) txs. amount tx))
         = (\<Sum>tx\<leftarrow>txs. amountChange a tx)"
  using assms by (induction txs) (auto simp: amountChange_def not_debit)

lemma period_sums_credit:
  assumes "normalBalance a = credit"
  shows "(\<Sum>tx\<leftarrow>filter B txs. amountChange a tx)
         + ((\<Sum>tx\<leftarrow>filter (\<lambda>tx. \<not> B tx \<and> txType tx = credit) txs. amount tx)
            - (\<Sum>tx\<leftarrow>filter (\<lambda>tx. \<not> B tx \<and> txType tx = debit) txs. amount tx))
         = (\<Sum>tx\<leftarrow>txs. amountChange a tx)"
  using assms by (induction txs) (auto simp: amountChange_def not_debit)

lemma sum_list_Ints: "\<forall>x\<in>set xs. x \<in> \<int> \<Longrightarrow> sum_list xs \<in> (\<int> :: real set)"
  by (induction xs) simp_all

lemma abs_sum_list_diff_le:
  "\<bar>(\<Sum>x\<leftarrow>filter P xs. f x) - (\<Sum>x\<leftarrow>filter Q xs. f x)\<bar> \<le> (\<Sum>x\<leftarrow>xs. \<bar>f x :: real\<bar>)"
  by (induction xs) auto

text \<open>
  Whole-number amounts: when the beginning balance and the amounts of an account's
  transactions are integers and their absolute values sum to at most \<open>2 ^ 53\<close>, no
  operation of the row rounds.
\<close>

lemma summaryRow_ending:
  assumes b: "beginningBalance a \<in> \<int>"
    and i: "\<forall>tx\<in>set transactions. accountId tx = accId a \<longrightarrow> amount tx \<in> \<int>"
    and le: "\<bar>beginningBalance a\<bar>
             + (\<Sum>tx\<leftarrow>filter (\<lambda>tx. accountId tx = accId a) transactions. \<bar>amount tx\<bar>)
             \<le> 2 ^ 53"
  shows "rowEndingBalance (summaryRow newDate startDate transactions a) =
     beginningBalance a + signedSum a transactions"
proof -
  let ?own = "filter (\<lambda>tx. accountId tx = accId a) transactions"
  let ?B = "\<lambda>tx. dateLess (newDate (date tx @ ''T00:00:00'')) startDate"
  let ?D = "\<lambda>tx. \<not> ?B tx \<and> txType tx = debit"
  let ?C = "\<lambda>tx. \<not> ?B tx \<and> txType tx = credit"
  let ?S = "(\<Sum>tx\<leftarrow>?own. \<bar>amount tx\<bar>)"
  have own: "\<forall>tx\<in>set ?own. amount tx \<in> \<int>" using i by simp
  have S0: "0 \<le> \<bar>beginningBalance a\<bar>" by simp
  have S: "?S \<le> 2 ^ 53" using le S0 by linarith
  have fle: "(\<Sum>tx\<leftarrow>filter P ?own. \<bar>amount tx\<bar>) \<le> ?S" for P
    by (rule sum_list_abs_filter_le)
  have bb: "foldl dadd (beginningBalance a) (map (amountChange a) (filter ?B ?own)) =
              beginningBalance a + (\<Sum>tx\<leftarrow>filter ?B ?own. amountChange a tx)"
  proof (rule foldl_dadd_int [OF b])
    show "\<forall>x\<in>set (map (amountChange a) (filter ?B ?own)). x \<in> \<int>"
      using own by (auto intro: amountChange_Ints)
    have "(\<Sum>x\<leftarrow>map (amountChange a) (filter ?B ?own). \<bar>x\<bar>) =
            (\<Sum>tx\<leftarrow>filter ?B ?own. \<bar>amount tx\<bar>)"
      by (simp add: comp_def abs_amountChange)
    with fle [of ?B] le
    show "\<bar>beginningBalance a\<bar> + (\<Sum>x\<leftarrow>map (amountChange a) (filter ?B ?own). \<bar>x\<bar>) \<le> 2 ^ 53"
      by linarith
  qed
  have tot: "foldl dadd 0 (map amount (filter P ?own)) = (\<Sum>tx\<leftarrow>filter P ?own. amount tx)"
    for P
  proof -
    have "foldl dadd 0 (map amount (filter P ?own)) = 0 + sum_list (map amount (filter P ?own))"
    proof (rule foldl_dadd_int)
      show "(0::real) \<in> \<int>" by simp
      show "\<forall>x\<in>set (map amount (filter P ?own)). x \<in> \<int>" using own by auto
      have "(\<Sum>x\<leftarrow>map amount (filter P ?own). \<bar>x\<bar>) = (\<Sum>tx\<leftarrow>filter P ?own. \<bar>amount tx\<bar>)"
        by (simp add: comp_def)
      with fle [of P] S show "\<bar>0::real\<bar> + (\<Sum>x\<leftarrow>map amount (filter P ?own). \<bar>x\<bar>) \<le> 2 ^ 53"
        by simp
    qed
    then show ?thesis by simp
  qed
  have tI: "(\<Sum>tx\<leftarrow>filter P ?own. amount tx) \<in> \<int>" for P
    using sum_list_Ints [of "map amount (filter P ?own)"] own by auto
  have sI: "(\<Sum>tx\<leftarrow>filter ?B ?own. amountChange a tx) \<in> \<int>"
    using sum_list_Ints [of "map (amountChange a) (filter ?B ?own)"] own
    by (auto intro: amountChange_Ints)
  have bI: "beginningBalance a + (\<Sum>tx\<leftarrow>filter ?B ?own. amountChange a tx) \<in> \<int>"
    using b sI by (rule Ints_add)
  have dle: "\<bar>(\<Sum>tx\<leftarrow>filter P ?own. amount tx) - (\<Sum>tx\<leftarrow>filter Q ?own. amount tx)\<bar> \<le> 2 ^ 53"
    for P Q
    using abs_sum_list_diff_le [where P = P and Q = Q and f = amount and xs = "?own"] S by linarith
  have sub: "dsub (\<Sum>tx\<leftarrow>filter P ?own. amount tx) (\<Sum>tx\<leftarrow>filter Q ?own. amount tx) =
               (\<Sum>tx\<leftarrow>filter P ?own. amount tx) - (\<Sum>tx\<leftarrow>filter Q ?own. amount tx)" for P Q
    using tI tI dle by (rule dsub_int)
  have all: "\<bar>beginningBalance a + (\<Sum>tx\<leftarrow>?own. amountChange a tx)\<bar> \<le> 2 ^ 53"
  proof -
    have "\<bar>\<Sum>tx\<leftarrow>?own. amountChange a tx\<bar> \<le> (\<Sum>tx\<leftarrow>?own. \<bar>amountChange a tx\<bar>)"
      using sum_list_abs [of "map (amountChange a) ?own"] by (simp add: comp_def)
    also have "\<dots> = ?S" by (simp add: abs_amountChange)
    finally show ?thesis using le by linarith
  qed
  have row: "rowEndingBalance (summaryRow newDate startDate transactions a) =
     dadd (foldl dadd (beginningBalance a) (map (amountChange a) (filter ?B ?own)))
       (if normalBalance a = debit
        then dsub (foldl dadd 0 (map amount (filter ?D ?own)))
               (foldl dadd 0 (map amount (filter ?C ?own)))
        else dsub (foldl dadd 0 (map amount (filter ?C ?own)))
               (foldl dadd 0 (map amount (filter ?D ?own))))"
    by (simp only: summaryRow_fields Let_def LedgerSummaryData.select_convs)
  show ?thesis
  proof (cases "normalBalance a")
    case debit
    note p = period_sums_debit [OF debit, of ?B ?own]
    have "dadd (beginningBalance a + (\<Sum>tx\<leftarrow>filter ?B ?own. amountChange a tx))
            ((\<Sum>tx\<leftarrow>filter ?D ?own. amount tx) - (\<Sum>tx\<leftarrow>filter ?C ?own. amount tx)) =
          beginningBalance a + (\<Sum>tx\<leftarrow>filter ?B ?own. amountChange a tx)
          + ((\<Sum>tx\<leftarrow>filter ?D ?own. amount tx) - (\<Sum>tx\<leftarrow>filter ?C ?own. amount tx))"
    proof (rule dadd_int [OF bI])
      show "(\<Sum>tx\<leftarrow>filter ?D ?own. amount tx) - (\<Sum>tx\<leftarrow>filter ?C ?own. amount tx) \<in> \<int>"
        using tI tI by (rule Ints_diff)
      show "\<bar>beginningBalance a + (\<Sum>tx\<leftarrow>filter ?B ?own. amountChange a tx)
             + ((\<Sum>tx\<leftarrow>filter ?D ?own. amount tx) - (\<Sum>tx\<leftarrow>filter ?C ?own. amount tx))\<bar>
            \<le> 2 ^ 53"
        using all p by (simp add: add.assoc)
    qed
    with p debit show ?thesis
      unfolding row bb tot sub signedSum_def by (simp add: add.assoc)
  next
    case credit
    note p = period_sums_credit [OF credit, of ?B ?own]
    have "dadd (beginningBalance a + (\<Sum>tx\<leftarrow>filter ?B ?own. amountChange a tx))
            ((\<Sum>tx\<leftarrow>filter ?C ?own. amount tx) - (\<Sum>tx\<leftarrow>filter ?D ?own. amount tx)) =
          beginningBalance a + (\<Sum>tx\<leftarrow>filter ?B ?own. amountChange a tx)
          + ((\<Sum>tx\<leftarrow>filter ?C ?own. amount tx) - (\<Sum>tx\<leftarrow>filter ?D ?own. amount tx))"
    proof (rule dadd_int [OF bI])
      show "(\<Sum>tx\<leftarrow>filter ?C ?own. amount tx) - (\<Sum>tx\<leftarrow>filter ?D ?own. amount tx) \<in> \<int>"
        using tI tI by (rule Ints_diff)
      show "\<bar>beginningBalance a + (\<Sum>tx\<leftarrow>filter ?B ?own. amountChange a tx)
             + ((\<Sum>tx\<leftarrow>filter ?C ?own. amount tx) - (\<Sum>tx\<leftarrow>filter ?D ?own. amount tx))\<bar>
            \<le> 2 ^ 53"
        using all p by (simp add: add.assoc)
    qed
    with p credit show ?thesis
      unfolding row bb tot sub signedSum_def by (simp add: add.assoc)
  qed
qed

lemma insertSorted_mset: "mset (insertSorted cmp x ys) = add_mset x (mset ys)"
  by (induction ys) simp_all

lemma sortBy_mset: "mset (sortBy cmp xs) = mset xs"
  by (induction xs) (simp_all add: insertSorted_mset)

lemma runningBalances_Nil: "runningBalances a rb txs = [] \<longleftrightarrow> txs = []"
  by (cases txs) (simp_all add: Let_def)

lemma runningBalances_last:
  "txs \<noteq> [] \<Longrightarrow>
     balance (last (runningBalances a rb txs)) = foldl dadd rb (map (amountChange a) txs)"
proof (induction txs arbitrary: rb)
  case Nil
  then show ?case by simp
next
  case (Cons tx txs)
  show ?case
  proof (cases "txs = []")
    case True
    then show ?thesis by (simp add: Let_def)
  next
    case False
    with Cons.IH [of "dadd rb (amountChange a tx)"] show ?thesis
      by (simp add: Let_def runningBalances_Nil)
  qed
qed

lemma runningBalances_final:
  "finalBalance a (runningBalances a (beginningBalance a) txs) =
     foldl dadd (beginningBalance a) (map (amountChange a) txs)"
  by (cases "txs = []") (simp_all add: finalBalance_def runningBalances_Nil runningBalances_last)

lemma sum_list_map_mset:
  assumes "mset ys = mset xs"
  shows "sum_list (map f ys) = (sum_list (map f xs) :: real)"
proof -
  from assms have "mset (map f ys) = mset (map f xs)" by simp
  then have "sum_mset (mset (map f ys)) = sum_mset (mset (map f xs))" by simp
  then show ?thesis by (simp only: sum_mset_sum_list)
qed

lemma runningBalances_any_order:
  assumes m: "mset ys = mset (filter (\<lambda>tx. accountId tx = accId a) transactions)"
    and b: "beginningBalance a \<in> \<int>"
    and i: "\<forall>tx\<in>set transactions. accountId tx = accId a \<longrightarrow> amount tx \<in> \<int>"
    and le: "\<bar>beginningBalance a\<bar>
             + (\<Sum>tx\<leftarrow>filter (\<lambda>tx. accountId tx = accId a) transactions. \<bar>amount tx\<bar>)
             \<le> 2 ^ 53"
  shows "finalBalance a (runningBalances a (beginningBalance a) ys) =
           beginningBalance a + signedSum a transactions"
proof -
  let ?own = "filter (\<lambda>tx. accountId tx = accId a) transactions"
  from m have s: "set ys = set ?own" by (rule mset_eq_setD)
  have "foldl dadd (beginningBalance a) (map (amountChange a) ys) =
          beginningBalance a + sum_list (map (amountChange a) ys)"
  proof (rule foldl_dadd_int [OF b])
    show "\<forall>x\<in>set (map (amountChange a) ys). x \<in> \<int>"
      using i s by (auto intro: amountChange_Ints)
    have "(\<Sum>x\<leftarrow>map (amountChange a) ys. \<bar>x\<bar>) = (\<Sum>tx\<leftarrow>ys. \<bar>amount tx\<bar>)"
      by (simp add: comp_def abs_amountChange)
    also have "\<dots> = (\<Sum>tx\<leftarrow>?own. \<bar>amount tx\<bar>)" using m by (rule sum_list_map_mset)
    finally show "\<bar>beginningBalance a\<bar> + (\<Sum>x\<leftarrow>map (amountChange a) ys. \<bar>x\<bar>) \<le> 2 ^ 53"
      using le by simp
  qed
  also have "sum_list (map (amountChange a) ys) = sum_list (map (amountChange a) ?own)"
    using m by (rule sum_list_map_mset)
  finally show ?thesis by (simp add: runningBalances_final signedSum_def)
qed

lemma ledgerDetail_known:
  assumes "distinct (map accId accounts)" and "a \<in> set accounts"
  shows "ledgerDetail arraySort newDate accounts transactions (accId a) =
           runningBalances a (beginningBalance a)
             (arraySort (compareDates newDate)
                (filter (\<lambda>tx. accountId tx = accId a) transactions))"
  using find_accId_distinct [OF assms] by (simp add: ledgerDetail_def Let_def)

text \<open>
  C10 (the two ledger views agree), for whole-number amounts. For an account of the
  list (ids unique, and the id neither empty nor the menu value \<open>all\<close>, so that the
  single-account view can show it) whose beginning balance and transaction amounts are
  integers with absolute values summing to at most \<open>2 ^ 53\<close>, and for any company (so
  any fiscal-year start, valid or not): the all-accounts view is the summary; it has a
  row for the account when its beginning balance is non-zero or a transaction
  references it; every row of the account ends on the beginning balance plus the
  sign-adjusted amounts of all its transactions, as does the row computed for any
  boundary whatever; and the single-account view, under any sort that only rearranges
  the account's transactions, ends on the same balance: the running balance of its
  last line, or the beginning balance when no transaction references the account.
\<close>

theorem ledger_views_agree:
  assumes "distinct (map accId accounts)" and "a \<in> set accounts"
    and "accId a \<noteq> []" and "accId a \<noteq> ''all''"
    and "mset (arraySort (compareDates newDate)
                 (filter (\<lambda>tx. accountId tx = accId a) transactions)) =
         mset (filter (\<lambda>tx. accountId tx = accId a) transactions)"
    and "beginningBalance a \<in> \<int>"
    and "\<forall>tx\<in>set transactions. accountId tx = accId a \<longrightarrow> amount tx \<in> \<int>"
    and "\<bar>beginningBalance a\<bar>
         + (\<Sum>tx\<leftarrow>filter (\<lambda>tx. accountId tx = accId a) transactions. \<bar>amount tx\<bar>)
         \<le> 2 ^ 53"
  shows "ledgerDataWith arraySort newDate company accounts transactions ''all'' =
           Summary (ledgerSummary newDate company accounts transactions)
       \<and> (beginningBalance a \<noteq> 0 \<or> (\<exists>tx\<in>set transactions. accountId tx = accId a) \<longrightarrow>
            (\<exists>r\<in>set (ledgerSummary newDate company accounts transactions).
               rowAccountId r = accId a))
       \<and> (\<forall>r\<in>set (ledgerSummary newDate company accounts transactions).
            rowAccountId r = accId a \<longrightarrow>
              rowEndingBalance r =
                beginningBalance a
                + (\<Sum>tx\<leftarrow>filter (\<lambda>tx. accountId tx = accId a) transactions.
                     if txType tx = normalBalance a then amount tx else - amount tx))
       \<and> rowEndingBalance (summaryRow newDate startDate transactions a) =
           beginningBalance a
           + (\<Sum>tx\<leftarrow>filter (\<lambda>tx. accountId tx = accId a) transactions.
                if txType tx = normalBalance a then amount tx else - amount tx)
       \<and> ledgerDataWith arraySort newDate company accounts transactions (accId a) =
            Detail (ledgerDetail arraySort newDate accounts transactions (accId a))
       \<and> finalBalance a (ledgerDetail arraySort newDate accounts transactions (accId a)) =
           beginningBalance a
           + (\<Sum>tx\<leftarrow>filter (\<lambda>tx. accountId tx = accId a) transactions.
                if txType tx = normalBalance a then amount tx else - amount tx)
       \<and> (ledgerDetail arraySort newDate accounts transactions (accId a) = [] \<longleftrightarrow>
            \<not> list_ex (\<lambda>tx. accountId tx = accId a) transactions)"
proof -
  let ?own = "filter (\<lambda>tx. accountId tx = accId a) transactions"
  let ?rows = "ledgerSummary newDate company accounts transactions"
  let ?total = "beginningBalance a
           + (\<Sum>tx\<leftarrow>?own. if txType tx = normalBalance a then amount tx else - amount tx)"
  have s: "beginningBalance a + signedSum a transactions = ?total"
    by (simp add: signedSum_def amountChange_fun)
  note e = summaryRow_ending [OF assms(6,7,8), unfolded s]
  have 1: "ledgerDataWith arraySort newDate company accounts transactions ''all'' =
             Summary ?rows"
    by (simp add: ledgerDataWith_def)
  have 2: "\<exists>r\<in>set ?rows. rowAccountId r = accId a"
    if "beginningBalance a \<noteq> 0 \<or> (\<exists>tx\<in>set transactions. accountId tx = accId a)"
  proof -
    from that assms(2) have "a \<in> set (accountsToProcess accounts transactions)"
      by (simp add: accountsToProcess_set)
    then have "accId a \<in> accId ` set (accountsToProcess accounts transactions)"
      by (rule imageI)
    then have "accId a \<in> set (map rowAccountId ?rows)"
      by (simp only: ledgerSummary_ids set_map)
    then show ?thesis by (simp add: image_iff) metis
  qed
  have 3: "rowEndingBalance r = ?total"
    if r: "r \<in> set ?rows" and i: "rowAccountId r = accId a" for r
  proof -
    from r obtain b where b: "b \<in> set (accountsToProcess accounts transactions)"
      and rb: "r = summaryRow newDate
                 (newDate (templateStr (fiscalYearStart company) @ ''T00:00:00''))
                 transactions b"
      by (auto simp: ledgerSummary_def Let_def)
    from b have "b \<in> set accounts" by (simp add: accountsToProcess_set)
    moreover from rb i have "accId b = accId a" by (simp add: summaryRow_fields Let_def)
    ultimately have "b = a" using assms(1,2) by (meson distinct_map inj_onD)
    with rb show ?thesis by (simp only: e)
  qed
  have 4: "rowEndingBalance (summaryRow newDate startDate transactions a) = ?total"
    by (rule e)
  have 5: "ledgerDataWith arraySort newDate company accounts transactions (accId a) =
            Detail (ledgerDetail arraySort newDate accounts transactions (accId a))"
    using assms(3,4) by (simp add: ledgerDataWith_def)
  note d = ledgerDetail_known [OF assms(1,2), of arraySort newDate transactions]
  have 6: "finalBalance a (ledgerDetail arraySort newDate accounts transactions (accId a)) =
             ?total"
    unfolding d using runningBalances_any_order [OF assms(5,6,7,8)] s by simp
  have "arraySort (compareDates newDate) ?own = [] \<longleftrightarrow> ?own = []"
    using assms(5) by (metis mset_zero_iff)
  then have 7: "ledgerDetail arraySort newDate accounts transactions (accId a) = [] \<longleftrightarrow>
            \<not> list_ex (\<lambda>tx. accountId tx = accId a) transactions"
    unfolding d by (simp add: runningBalances_Nil list_ex_iff filter_empty_conv)
  from 1 2 3 4 5 6 7 show ?thesis by blast
qed

theorem ledger_views_agree_witness:
  "distinct (map accId exAccounts) \<and> exKas \<in> set exAccounts
   \<and> mset (sortBy (compareDates exNewDate)
             (filter (\<lambda>tx. accountId tx = accId exKas) exTransactions)) =
       mset (filter (\<lambda>tx. accountId tx = accId exKas) exTransactions)
   \<and> beginningBalance exKas \<in> \<int>
   \<and> \<not> (\<exists>tx\<in>set exTransactions. accountId tx = accId exKas \<and> amount tx \<notin> \<int>)
   \<and> (\<exists>r\<in>set (ledgerSummary exNewDate exCompany exAccounts exTransactions).
         rowAccountId r = ''1-1130'' \<and> rowEndingBalance r = 1300000)
   \<and> map rowBeginningBalance
       (ledgerSummary exNewDate exCompany exAccounts exTransactions) = [1000000, 300000, 0]
   \<and> (\<exists>r\<in>set (ledgerSummary exNewDate
                  (exCompany\<lparr>fiscalYearStart := Some ''2025-01-12''\<rparr>)
                  exAccounts exTransactions).
         rowAccountId r = ''1-1130'' \<and> rowEndingBalance r = 1300000)
   \<and> map rowBeginningBalance
       (ledgerSummary exNewDate (exCompany\<lparr>fiscalYearStart := Some ''2025-01-12''\<rparr>)
          exAccounts exTransactions) = [1500000, 300000, 0]
   \<and> ledgerData exNewDate exCompany exAccounts exTransactions ''1-1130'' =
       Detail (ledgerDetail sortBy exNewDate exAccounts exTransactions ''1-1130'')
   \<and> finalBalance exKas (ledgerDetail sortBy exNewDate exAccounts exTransactions ''1-1130'')
       = 1300000"
proof -
  let ?C' = "exCompany\<lparr>fiscalYearStart := Some ''2025-01-12''\<rparr>"
  have h1: "distinct (map accId exAccounts)" by (simp add: ex_defs)
  have h2: "exKas \<in> set exAccounts" by (simp add: ex_defs)
  have h3: "accId exKas \<noteq> []" by (simp add: ex_defs)
  have h4: "accId exKas \<noteq> ''all''" by (simp add: ex_defs)
  have h5: "mset (sortBy (compareDates exNewDate)
             (filter (\<lambda>tx. accountId tx = accId exKas) exTransactions)) =
       mset (filter (\<lambda>tx. accountId tx = accId exKas) exTransactions)"
    by (rule sortBy_mset)
  have h6: "beginningBalance exKas \<in> \<int>" by (simp add: ex_defs)
  have h7: "\<forall>tx\<in>set exTransactions. accountId tx = accId exKas \<longrightarrow> amount tx \<in> \<int>"
    by (simp add: ex_defs)
  then have h7': "\<not> (\<exists>tx\<in>set exTransactions. accountId tx = accId exKas \<and> amount tx \<notin> \<int>)"
    by blast
  have h8: "\<bar>beginningBalance exKas\<bar>
         + (\<Sum>tx\<leftarrow>filter (\<lambda>tx. accountId tx = accId exKas) exTransactions. \<bar>amount tx\<bar>)
         \<le> 2 ^ 53"
    by (simp add: ex_defs)
  have i: "accId exKas = ''1-1130''" by (simp add: ex_defs)
  have t: "beginningBalance exKas
           + (\<Sum>tx\<leftarrow>filter (\<lambda>tx. accountId tx = ''1-1130'') exTransactions.
                if txType tx = normalBalance exKas then amount tx else - amount tx)
           = 1300000"
    by (simp add: ex_defs)
  have x: "\<exists>tx\<in>set exTransactions. accountId tx = accId exKas" by (simp add: ex_defs)
  note T = ledger_views_agree [of exAccounts exKas sortBy exNewDate exTransactions _ None,
      OF h1 h2 h3 h4 h5 h6 h7 h8, unfolded i, unfolded t]
  have a: "\<exists>r\<in>set (ledgerSummary exNewDate C exAccounts exTransactions).
         rowAccountId r = ''1-1130'' \<and> rowEndingBalance r = 1300000" for C
    using T [of C, THEN conjunct2, THEN conjunct1] T [of C, THEN conjunct2, THEN conjunct2,
        THEN conjunct1] x [unfolded i] by blast
  have b: "map rowBeginningBalance
       (ledgerSummary exNewDate exCompany exAccounts exTransactions) = [1000000, 300000, 0]"
    unfolding ledgerSummary_def ex_accountsToProcess ex_startDate
    by (simp add: summaryRow_fields amountChange_def ex_defs exNewDate_def dateLess_def
        Let_def num_evals)
  have s': "exNewDate (templateStr (fiscalYearStart ?C') @ ''T00:00:00'') = Some 1736640000000"
    by (simp add: exCompany_def templateStr_def exNewDate_def)
  have b': "map rowBeginningBalance (ledgerSummary exNewDate ?C' exAccounts exTransactions) =
       [1500000, 300000, 0]"
    unfolding ledgerSummary_def ex_accountsToProcess s'
    by (simp add: summaryRow_fields amountChange_def ex_defs exNewDate_def dateLess_def
        Let_def num_evals)
  have c: "ledgerData exNewDate exCompany exAccounts exTransactions ''1-1130'' =
       Detail (ledgerDetail sortBy exNewDate exAccounts exTransactions ''1-1130'')"
    unfolding ledgerData_def
    by (rule T [of exCompany, THEN conjunct2, THEN conjunct2, THEN conjunct2, THEN conjunct2,
          THEN conjunct1])
  have d: "finalBalance exKas (ledgerDetail sortBy exNewDate exAccounts exTransactions ''1-1130'')
       = 1300000"
    by (rule T [of exCompany, THEN conjunct2, THEN conjunct2, THEN conjunct2, THEN conjunct2,
          THEN conjunct2, THEN conjunct1])
  from h1 h2 h5 h6 h7' a [of exCompany] b a [of ?C'] b' c d show ?thesis by blast
qed

lemma ex_doubles:
  "fl64 0.07 = 5044031582654956 / 2 ^ 56"
  "fl64 0.01 = 5764607523034235 / 2 ^ 59"
  "fl64 0.14 = 5044031582654956 / 2 ^ 55"
  using fl64_eqI [of "- 56" "0.07" 5044031582654956]
    fl64_eqI [of "- 59" "0.01" 5764607523034235]
    fl64_eqI [of "- 55" "0.14" 5044031582654956]
  by simp_all

lemma fl64_zero_ops:
  "dadd 0 (fl64 x) = fl64 x"
  "dadd (fl64 x) 0 = fl64 x"
  "dsub 0 (fl64 x) = - fl64 x"
  "dsub (fl64 x) 0 = fl64 x"
  by (simp_all add: dadd_def dsub_def fl64_idem fl64_minus)

lemma ex_sen_running1: "dadd (fl64 0.07) (fl64 0.01) = 5764607523034235 / 2 ^ 56"
  unfolding ex_doubles dadd_def
  using fl64_eqI [of "- 56" "5044031582654956 / 2 ^ 56 + 5764607523034235 / 2 ^ 59"
      5764607523034235]
  by simp

lemma ex_sen_running2:
  "dadd (dadd (fl64 0.07) (fl64 0.01)) (- fl64 0.14) = - (8646911284551354 / 2 ^ 57)"
  unfolding ex_sen_running1 unfolding ex_doubles dadd_def
  using fl64_eqI [of "- 57" "5764607523034235 / 2 ^ 56 + - (5044031582654956 / 2 ^ 55)"
      "- 8646911284551354"]
  by simp

lemma ex_sen_mutation: "dsub (fl64 0.01) (fl64 0.14) = - (4683743612465316 / 2 ^ 55)"
  unfolding ex_doubles dsub_def
  using fl64_eqI [of "- 55" "5764607523034235 / 2 ^ 59 - 5044031582654956 / 2 ^ 55"
      "- 4683743612465316"]
  by simp

lemma ex_sen_ending:
  "dadd (fl64 0.07) (dsub (fl64 0.01) (fl64 0.14)) = - (8646911284551352 / 2 ^ 57)"
  unfolding ex_sen_mutation unfolding ex_doubles dadd_def
  using fl64_eqI [of "- 57" "5044031582654956 / 2 ^ 56 + - (4683743612465316 / 2 ^ 55)"
      "- 8646911284551352"]
  by simp

lemma ex_sen_summary:
  "map rowEndingBalance (ledgerSummary exNewDate exCompany [exKasKecil] exSen) =
     [- (8646911284551352 / 2 ^ 57)]"
proof -
  have p: "accountsToProcess [exKasKecil] exSen = [exKasKecil]"
    by (simp add: accountsToProcess_def exKasKecil_def exSen_def)
  have r: "rowEndingBalance (summaryRow exNewDate (Some 1735689600000) exSen exKasKecil) =
          dadd (fl64 0.07) (dsub (fl64 0.01) (fl64 0.14))"
    by (simp add: summaryRow_fields Let_def exKasKecil_def exSen_def exNewDate_def
        dateLess_def amountChange_def fl64_zero_ops)
  show ?thesis
    unfolding ledgerSummary_def Let_def ex_startDate p list.map r ex_sen_ending
    by (rule refl)
qed

lemma ex_sen_summary12:
  "map rowEndingBalance
     (ledgerSummary exNewDate (exCompany\<lparr>fiscalYearStart := Some ''2025-01-12''\<rparr>)
        [exKasKecil] exSen) =
     [- (8646911284551354 / 2 ^ 57)]"
proof -
  have p: "accountsToProcess [exKasKecil] exSen = [exKasKecil]"
    by (simp add: accountsToProcess_def exKasKecil_def exSen_def)
  have s: "exNewDate (templateStr (fiscalYearStart
             (exCompany\<lparr>fiscalYearStart := Some ''2025-01-12''\<rparr>)) @ ''T00:00:00'') =
           Some 1736640000000"
    by (simp add: exCompany_def templateStr_def exNewDate_def)
  have r: "rowEndingBalance (summaryRow exNewDate (Some 1736640000000) exSen exKasKecil) =
          dadd (dadd (fl64 0.07) (fl64 0.01)) (- fl64 0.14)"
    by (simp add: summaryRow_fields Let_def exKasKecil_def exSen_def exNewDate_def
        dateLess_def amountChange_def fl64_zero_ops)
  show ?thesis
    unfolding ledgerSummary_def Let_def s p list.map r ex_sen_running2
    by (rule refl)
qed

lemma ex_sen_detail:
  "map balance (ledgerDetail sortBy exNewDate [exKasKecil] exSen ''1-1110'') =
     [5764607523034235 / 2 ^ 56, - (8646911284551354 / 2 ^ 57)]"
proof -
  have "map balance (ledgerDetail sortBy exNewDate [exKasKecil] exSen ''1-1110'') =
     [dadd (fl64 0.07) (fl64 0.01), dadd (dadd (fl64 0.07) (fl64 0.01)) (- fl64 0.14)]"
    by (simp add: ledgerDetail_def Let_def exKasKecil_def exSen_def exNewDate_def
        compareDates_def comesAfter_def amountChange_def)
  also have "\<dots> = [5764607523034235 / 2 ^ 56, - (8646911284551354 / 2 ^ 57)]"
    unfolding ex_sen_running2 unfolding ex_sen_running1 by (rule refl)
  finally show ?thesis .
qed

text \<open>
  C10 as stated fails in the arithmetic of the code. An account with beginning balance
  0.07, a debit of 0.01 on 2025-01-10 and a credit of 0.14 on 2025-01-15: with the
  fiscal year starting 2025-01-01 the summary row ends on \<open>0.07 + (0.01 - 0.14)\<close>,
  which rounds to -0.06, while the single-account view ends on
  \<open>(0.07 + 0.01) - 0.14\<close>, which rounds to -0.06000000000000001; and moving the
  boundary to 2025-01-12 moves the summary's ending balance to the latter value.
\<close>

theorem ledger_views_agree_counterexample:
  "distinct (map accId [exKasKecil]) \<and> exKasKecil \<in> set [exKasKecil]
   \<and> accId exKasKecil = ''1-1110''
   \<and> ledgerData exNewDate exCompany [exKasKecil] exSen ''all'' =
       Summary (ledgerSummary exNewDate exCompany [exKasKecil] exSen)
   \<and> map rowEndingBalance (ledgerSummary exNewDate exCompany [exKasKecil] exSen) =
       [- (8646911284551352 / 2 ^ 57)]
   \<and> ledgerData exNewDate exCompany [exKasKecil] exSen ''1-1110'' =
       Detail (ledgerDetail sortBy exNewDate [exKasKecil] exSen ''1-1110'')
   \<and> map balance (ledgerDetail sortBy exNewDate [exKasKecil] exSen ''1-1110'') =
       [5764607523034235 / 2 ^ 56, - (8646911284551354 / 2 ^ 57)]
   \<and> [finalBalance exKasKecil (ledgerDetail sortBy exNewDate [exKasKecil] exSen ''1-1110'')]
       \<noteq> map rowEndingBalance (ledgerSummary exNewDate exCompany [exKasKecil] exSen)
   \<and> map rowEndingBalance
       (ledgerSummary exNewDate (exCompany\<lparr>fiscalYearStart := Some ''2025-01-12''\<rparr>)
          [exKasKecil] exSen) =
       [- (8646911284551354 / 2 ^ 57)]
   \<and> map rowEndingBalance
       (ledgerSummary exNewDate (exCompany\<lparr>fiscalYearStart := Some ''2025-01-12''\<rparr>)
          [exKasKecil] exSen)
       \<noteq> map rowEndingBalance (ledgerSummary exNewDate exCompany [exKasKecil] exSen)"
proof -
  let ?d = "ledgerDetail sortBy exNewDate [exKasKecil] exSen ''1-1110''"
  have 1: "distinct (map accId [exKasKecil])" by simp
  have 2: "exKasKecil \<in> set [exKasKecil]" by simp
  have 3: "accId exKasKecil = ''1-1110''" by (simp add: exKasKecil_def)
  have 4: "ledgerData exNewDate exCompany [exKasKecil] exSen ''all'' =
       Summary (ledgerSummary exNewDate exCompany [exKasKecil] exSen)"
    by (simp add: ledgerData_def ledgerDataWith_def)
  have 5: "ledgerData exNewDate exCompany [exKasKecil] exSen ''1-1110'' = Detail ?d"
    by (simp add: ledgerData_def ledgerDataWith_def)
  have n: "?d \<noteq> []" using ex_sen_detail by auto
  have l: "balance (last ?d) = last (map balance ?d)"
    using n by (simp add: last_map)
  have f: "finalBalance exKasKecil ?d = - (8646911284551354 / 2 ^ 57)"
    unfolding finalBalance_def l ex_sen_detail using n by simp
  have 6: "[finalBalance exKasKecil ?d]
       \<noteq> map rowEndingBalance (ledgerSummary exNewDate exCompany [exKasKecil] exSen)"
    unfolding f ex_sen_summary by simp
  have 7: "map rowEndingBalance
       (ledgerSummary exNewDate (exCompany\<lparr>fiscalYearStart := Some ''2025-01-12''\<rparr>)
          [exKasKecil] exSen)
       \<noteq> map rowEndingBalance (ledgerSummary exNewDate exCompany [exKasKecil] exSen)"
    unfolding ex_sen_summary ex_sen_summary12 by simp
  from 1 2 3 4 ex_sen_summary 5 ex_sen_detail 6 ex_sen_summary12 7 show ?thesis
    by blast
qed
section \<open>Properties of the account and transaction forms\<close>

text \<open>
  C8 (normal-balance derivation). The effect on the category sets the normal balance
  to \<open>debit\<close> for the categories \<open>asset\<close>, \<open>cost_of_sales\<close>, \<open>expense\<close> and
  \<open>other_expense\<close>, and to \<open>credit\<close> for \<open>liability\<close>, \<open>equity\<close>, \<open>income\<close> and
  \<open>other_income\<close>; it changes no other field of the account.
\<close>

theorem normal_balance_derivation:
  "(category a = asset \<or> category a = cost_of_sales \<or> category a = expense
      \<or> category a = other_expense \<longrightarrow> normalBalance (categoryEffect a) = debit)
   \<and> (category a = liability \<or> category a = equity \<or> category a = income
      \<or> category a = other_income \<longrightarrow> normalBalance (categoryEffect a) = credit)
   \<and> categoryEffect a = a\<lparr>normalBalance := normalBalance (categoryEffect a)\<rparr>"
  by (cases "category a") (simp_all add: categoryEffect_def debitCategories_def)

theorem normal_balance_derivation_witness:
  "category exKas = asset \<and> normalBalance (categoryEffect exKas) = debit
   \<and> category (exPendapatan\<lparr>normalBalance := debit\<rparr>) = income
   \<and> normalBalance (categoryEffect (exPendapatan\<lparr>normalBalance := debit\<rparr>)) = credit"
  using normal_balance_derivation [of exKas]
    normal_balance_derivation [of "exPendapatan\<lparr>normalBalance := debit\<rparr>"]
  by (simp add: exKas_def exPendapatan_def)












































end
